theory Spec2Isabelle
  imports Main "HOL-Library.Product_Lexorder" "HOL-Library.Sublist"
begin

section \<open>Exceptions\<close>

text \<open>
  Every exception the modelled routines can raise is a value. The Python class of the
  exception is the constructor; the argument is the message. Messages that join the
  elements of a Python \<open>set\<close> are kept structured (\<open>Report\<close>, \<open>Column_names\<close>): the order
  in which a set of strings is iterated depends on the hash seed of the process, so the
  rendered text is not a function of the input, while the list of files and the set
  printed for each of them are.
\<close>

datatype message =
    Text string
  | Report string "(string \<times> string set) list"
  | Column_names string "string set" "string set"

datatype error =
    ValueError message
  | AttributeError string
  | FileNotFoundError string
  | TypeError string
  | IndexError string
  | KeyError string
  | AssertionError message

section \<open>Calendar dates (datetime.strptime with the format %Y-%m-%d)\<close>





definition py_repr :: "string \<Rightarrow> string" where
  \<comment> \<open>\<open>repr\<close> of a string that needs no escaping\<close>
  "py_repr s = CHR 0x27 # s @ [CHR 0x27]"











section \<open>The date-range extractor (Hypothesis.filter_dates)\<close>











section \<open>The individual-parameter specification and the feature encoder\<close>

text \<open>
  What \<open>json.load\<close> returns. An object keeps its members in the order of the file, as a
  Python dictionary does, so it is a list of pairs. The encoder only ever asks whether a
  value is a string, so integers stand for every JSON number.
\<close>

datatype json =
    JNull
  | JBool bool
  | JNum int
  | JStr string
  | JList "json list"
  | JObj "(string \<times> json) list"

text \<open>\<open>v[0]\<close> for a value that came out of \<open>json.load\<close>.\<close>

definition not_subscriptable :: "string \<Rightarrow> error" where
  "not_subscriptable ty = TypeError (py_repr ty @ '' object is not subscriptable'')"

fun subscript0 :: "json \<Rightarrow> error + json" where
  "subscript0 (JList []) = Inl (IndexError ''list index out of range'')"
| "subscript0 (JList (x # xs)) = Inr x"
| "subscript0 (JStr []) = Inl (IndexError ''string index out of range'')"
| "subscript0 (JStr (c # cs)) = Inr (JStr [c])"
| "subscript0 (JObj members) = Inl (KeyError ''0'')"
| "subscript0 JNull = Inl (not_subscriptable ''NoneType'')"
| "subscript0 (JBool b) = Inl (not_subscriptable ''bool'')"
| "subscript0 (JNum n) = Inl (not_subscriptable ''int'')"

fun is_str :: "json \<Rightarrow> bool" where
  "is_str (JStr s) = True"
| "is_str v = False"

text \<open>
  The comprehension \<open>[key + '_' + v for v in value[0]]\<close>. It is reached only when
  \<open>value[0][0]\<close> is a string, so \<open>value[0]\<close> is a list or a string; over a list, an element
  that is not a string cannot be concatenated to \<open>key + '_'\<close>.
\<close>

fun type_name :: "json \<Rightarrow> string" where
  "type_name JNull = ''NoneType''"
| "type_name (JBool b) = ''bool''"
| "type_name (JNum n) = ''int''"
| "type_name (JStr s) = ''str''"
| "type_name (JList vs) = ''list''"
| "type_name (JObj members) = ''dict''"

definition cannot_concatenate :: "json \<Rightarrow> error" where
  "cannot_concatenate v =
     TypeError (''can only concatenate str (not '' @ [CHR 0x22] @ type_name v @ [CHR 0x22] @
                '') to str'')"

fun level_columns :: "string \<Rightarrow> json list \<Rightarrow> error + string list" where
  "level_columns key [] = Inr []"
| "level_columns key (v # vs) =
     (case v of
        JStr s \<Rightarrow>
          (case level_columns key vs of
             Inl e \<Rightarrow> Inl e
           | Inr rest \<Rightarrow> Inr ((key @ ''_'' @ s) # rest))
      | _ \<Rightarrow> Inl (cannot_concatenate v))"

definition expand_levels :: "string \<Rightarrow> json \<Rightarrow> error + string list" where
  "expand_levels key v0 =
     (case v0 of
        JList vs \<Rightarrow> level_columns key vs
      | JStr s \<Rightarrow> Inr (map (\<lambda>c. key @ ''_'' @ [c]) s)
      | _ \<Rightarrow> Inl (TypeError (py_repr (type_name v0) @ '' object is not iterable'')))"

text \<open>The loop over \<open>params_individual.items()\<close>, with \<open>features\<close> as its accumulator.\<close>

fun encode_items :: "(string \<times> json) list \<Rightarrow> string list \<Rightarrow> error + string list" where
  "encode_items [] features = Inr features"
| "encode_items ((key, value) # items) features =
     (case subscript0 value of
        Inl e \<Rightarrow> Inl e
      | Inr v0 \<Rightarrow>
     (case subscript0 v0 of
        Inl e \<Rightarrow> Inl e
      | Inr v00 \<Rightarrow>
          if is_str v00 then
            (case expand_levels key v0 of
               Inl e \<Rightarrow> Inl e
             | Inr cols \<Rightarrow> encode_items items (features @ cols))
          else encode_items items (features @ [key])))"

text \<open>
  \<open>Hypothesis._get_one_hot_encoded_features\<close>. Its arguments are the path and what the
  file at that path holds: \<open>None\<close> when there is no such file (\<open>open\<close> raises), otherwise
  the decoded JSON document, which has to be an object for \<open>.items()\<close> to exist.
\<close>

definition PARAMS_INDIVIDUAL :: string where
  "PARAMS_INDIVIDUAL = ''params_individual.json''"

definition no_such_file :: "string \<Rightarrow> error" where
  "no_such_file path = FileNotFoundError (''[Errno 2] No such file or directory: '' @ py_repr path)"

definition get_one_hot_encoded_features :: "string \<Rightarrow> json option \<Rightarrow> error + string list" where
  "get_one_hot_encoded_features fpath_params_individual content =
     (case content of
        None \<Rightarrow> Inl (no_such_file fpath_params_individual)
      | Some (JObj items) \<Rightarrow> encode_items items []
      | Some other \<Rightarrow>
          Inl (AttributeError (py_repr (type_name other) @ '' object has no attribute '' @
                 py_repr ''items'')))"

text \<open>
  The encoder as the specification words it: an attribute whose first example entry is a
  list of strings gives one column per level, every other attribute gives one column.
\<close>

fun first_entry :: "json \<Rightarrow> json option" where
  "first_entry (JList (x # xs)) = Some x"
| "first_entry v = None"

fun string_levels :: "json list \<Rightarrow> string list option" where
  "string_levels [] = Some []"
| "string_levels (v # vs) =
     (case v of
        JStr s \<Rightarrow> (case string_levels vs of None \<Rightarrow> None | Some ss \<Rightarrow> Some (s # ss))
      | _ \<Rightarrow> None)"

definition spec_columns :: "string \<times> json \<Rightarrow> string list" where
  "spec_columns attribute =
     (case first_entry (snd attribute) of
        Some (JList vs) \<Rightarrow>
          (case string_levels vs of
             Some levels \<Rightarrow> map (\<lambda>level. fst attribute @ ''_'' @ level) levels
           | None \<Rightarrow> [fst attribute])
      | _ \<Rightarrow> [fst attribute])"

definition spec_encoding :: "(string \<times> json) list \<Rightarrow> string list" where
  "spec_encoding items = concat (map spec_columns items)"

text \<open>
  The attributes on which the encoder's test of the first element alone decides as the
  specification does: the value is a list whose first entry is a non-empty list that
  starts with a non-string or holds strings only.
\<close>

definition uniform_attribute :: "string \<times> json \<Rightarrow> bool" where
  "uniform_attribute attribute =
     (case first_entry (snd attribute) of
        Some (JList (v # vs)) \<Rightarrow> (if is_str v then string_levels vs \<noteq> None else True)
      | _ \<Rightarrow> False)"

section \<open>Tables and the parameter directory\<close>

text \<open>
  A pandas \<open>DataFrame\<close>, column by column: the number of rows (the length of its index) and
  the labelled columns in order. The cells that matter here are strings and integers.
\<close>

datatype cell = Str string | Number int

record dataframe =
  nrows :: nat
  cols :: "(string \<times> cell list) list"

definition columns :: "dataframe \<Rightarrow> string list" where
  "columns df = map fst (cols df)"

text \<open>\<open>pd.DataFrame(value, index=range(n), columns=labels)\<close>.\<close>

definition DataFrame :: "cell \<Rightarrow> nat \<Rightarrow> string list \<Rightarrow> dataframe" where
  "DataFrame v n labels = \<lparr>nrows = n, cols = map (\<lambda>c. (c, replicate n v)) labels\<rparr>"

text \<open>
  \<open>df[label] = values\<close> for a list of the length of the index: every column that carries
  the label is replaced (pandas broadcasts over equal labels); a label the frame does not
  have is appended as a new column.
\<close>

definition set_column :: "dataframe \<Rightarrow> string \<Rightarrow> cell list \<Rightarrow> error + dataframe" where
  "set_column df label vs =
     (if length vs \<noteq> nrows df
        then Inl (ValueError (Text ''Length of values does not match length of index''))
      else if label \<in> set (columns df)
        then Inr (df\<lparr>cols := map (\<lambda>(c, old). if c = label then (c, vs) else (c, old)) (cols df)\<rparr>)
      else Inr (df\<lparr>cols := cols df @ [(label, vs)]\<rparr>))"

text \<open>
  \<open>df[label]\<close> read as a column. The frames \<open>read_csv\<close> returns have distinct labels (pandas
  renames a repeated header), so the first column with the label is the column.
\<close>

definition get_column :: "dataframe \<Rightarrow> string \<Rightarrow> error + cell list" where
  "get_column df label =
     (case map_of (cols df) label of
        None \<Rightarrow> Inl (KeyError (py_repr label))
      | Some vs \<Rightarrow> Inr vs)"

text \<open>
  The parameter directory: its path, what \<open>params_individual.json\<close> decodes to, when the
  file is there, and for each name of a CSV file that is there the frame \<open>pd.read_csv\<close> with
  the separator \<open>;\<close> returns for it. \<open>to_csv\<close> stores a frame under a name; a frame written
  with distinct, plain labels is the frame read back.
\<close>

record directory =
  dir_params :: string
  params_individual :: "json option"
  csv_files :: "string \<Rightarrow> dataframe option"

text \<open>\<open>os.path.join\<close> of two components (POSIX).\<close>

definition os_path_join :: "string \<Rightarrow> string \<Rightarrow> string" where
  "os_path_join a b =
     (if prefix ''/'' b then b
      else if a = [] \<or> suffix ''/'' a then a @ b
      else a @ ''/'' @ b)"

definition path_individual :: "directory \<Rightarrow> string" where
  "path_individual d = os_path_join (dir_params d) PARAMS_INDIVIDUAL"

definition isfile :: "directory \<Rightarrow> string \<Rightarrow> bool" where
  "isfile d name = (csv_files d name \<noteq> None)"

definition read_csv :: "directory \<Rightarrow> string \<Rightarrow> error + dataframe" where
  "read_csv d name =
     (case csv_files d name of
        None \<Rightarrow> Inl (no_such_file (os_path_join (dir_params d) name))
      | Some df \<Rightarrow> Inr df)"

definition to_csv :: "dataframe \<Rightarrow> string \<Rightarrow> directory \<Rightarrow> directory" where
  "to_csv df name d = d\<lparr>csv_files := (csv_files d)(name \<mapsto> df)\<rparr>"

text \<open>A comprehension whose body can raise: the first failure ends it.\<close>

fun traverse :: "('a \<Rightarrow> error + 'b) \<Rightarrow> 'a list \<Rightarrow> error + 'b list" where
  "traverse f [] = Inr []"
| "traverse f (x # xs) =
     (case f x of
        Inl e \<Rightarrow> Inl e
      | Inr y \<Rightarrow> (case traverse f xs of Inl e \<Rightarrow> Inl e | Inr ys \<Rightarrow> Inr (y # ys)))"

text \<open>\<open>sep.join(xs)\<close> and \<open>s.lower()\<close> on byte strings.\<close>

fun join :: "string \<Rightarrow> string list \<Rightarrow> string" where
  "join sep [] = []"
| "join sep [x] = x"
| "join sep (x # y # ys) = x @ sep @ join sep (y # ys)"

definition lower_char :: "char \<Rightarrow> char" where
  "lower_char c =
     (case map_of (zip ''ABCDEFGHIJKLMNOPQRSTUVWXYZ'' ''abcdefghijklmnopqrstuvwxyz'') c of
        None \<Rightarrow> c
      | Some l \<Rightarrow> l)"

definition lower :: "string \<Rightarrow> string" where
  "lower s = map lower_char s"

section \<open>The class attributes of Hypothesis\<close>

definition lockdown_policies :: "string list" where
  "lockdown_policies = [''absent'', ''easy'', ''medium'', ''hard'']"

definition individual_status :: "string list" where
  "individual_status = [''mh'']"

definition all_possible_actions :: "string list" where
  "all_possible_actions =
     [''work_from_home'', ''maintain_physical_distance'', ''stay_at_home'', ''exercise'',
      ''socialise'', ''travel'', ''seek_help'', ''negative_coping'', ''positive_coping'',
      ''socialise_online'']"

section \<open>The template generator (Hypothesis.create_empty_hypotheses)\<close>

text \<open>
  The result is the outcome together with the directory as the call leaves it. Both
  failures (the missing specification file, a failure of the encoder) come before the
  first \<open>to_csv\<close>.
\<close>

definition missing_specification :: "directory \<Rightarrow> error" where
  \<comment> \<open>the f-string is continued over a line break, whose indentation it keeps\<close>
  "missing_specification d =
     FileNotFoundError (py_repr PARAMS_INDIVIDUAL @ '' '' @ replicate 12 CHR '' '' @
       ''file is missing in the directory '' @ py_repr (dir_params d))"

definition skeleton :: "string list \<Rightarrow> error + dataframe" where
  "skeleton features =
     (let actions = all_possible_actions;
          columns = [''actions'', ''baseline''] @ features;
          df = DataFrame (Number 0) (length actions) columns
      in set_column df ''actions'' (map Str actions))"

definition output_fpaths :: "string list" where
  "output_fpaths =
     [''lockdown_'' @ lockdown @ ''.csv''. lockdown \<leftarrow> lockdown_policies] @
     [''actions_effects_on_'' @ s @ ''.csv''. s \<leftarrow> individual_status]"

definition create_empty_hypotheses :: "directory \<Rightarrow> (error + unit) \<times> directory" where
  "create_empty_hypotheses d =
     (if params_individual d = None then (Inl (missing_specification d), d)
      else
        (case get_one_hot_encoded_features (path_individual d) (params_individual d) of
           Inl e \<Rightarrow> (Inl e, d)
         | Inr features \<Rightarrow>
             (case skeleton features of
                Inl e \<Rightarrow> (Inl e, d)
              | Inr df \<Rightarrow> (Inr (), fold (to_csv df) output_fpaths d))))"

section \<open>The schema validator (Hypothesis.validate_param_file)\<close>

definition fnames :: "string list" where
  "fnames =
     [''actions_effects_on_'' @ status @ ''_'' @ policy @ ''.csv''.
        status \<leftarrow> individual_status, policy \<leftarrow> lockdown_policies] @
     [''lockdown_'' @ lockdown @ ''.csv''. lockdown \<leftarrow> lockdown_policies]"

text \<open>The strings of a column, as the members of \<open>set(hd["actions"])\<close> a string can equal.\<close>

definition strings_of :: "cell list \<Rightarrow> string set" where
  "strings_of vs = set (List.map_filter (\<lambda>c. case c of Str s \<Rightarrow> Some s | Number i \<Rightarrow> None) vs)"

definition file_report :: "string list \<Rightarrow> string set list \<Rightarrow> (string \<times> string set) list" where
  \<comment> \<open>the lines \<open>fnames[i] - missing[i]\<close> for the indices \<open>i\<close> with \<open>missing[i]\<close> non-empty\<close>
  "file_report names missing =
     [(names ! i, missing ! i). i \<leftarrow> [0..<length names], missing ! i \<noteq> {}]"

definition validate_param_file :: "directory \<Rightarrow> error + unit" where
  "validate_param_file d =
     (let fexist = map (isfile d) fnames in
      if \<not> list_all id fexist then
        Inl (ValueError (Text (''Hypothesis file(s) not found: '' @
          join '', '' [fnames ! i. i \<leftarrow> [0..<length fnames], \<not> fexist ! i] @ ''.'')))
      else
        (case get_one_hot_encoded_features (path_individual d) (params_individual d) of
           Inl e \<Rightarrow> Inl e
         | Inr features \<Rightarrow>
        (let required_features = [''actions'', ''baseline''] @ features in
         case traverse (read_csv d) fnames of
           Inl e \<Rightarrow> Inl e
         | Inr hypothesis_data \<Rightarrow>
        (let missing_features =
               map (\<lambda>hd. set (map lower required_features) - set (map lower (columns hd)))
                 hypothesis_data in
         if list_ex (\<lambda>m. m \<noteq> {}) missing_features then
           Inl (ValueError (Report ''Missing features:'' (file_report fnames missing_features)))
         else
           (let required_actions = all_possible_actions in
            case traverse
                   (\<lambda>hd. case get_column hd ''actions'' of
                           Inl e \<Rightarrow> Inl e
                         | Inr actions \<Rightarrow> Inr (set required_actions - strings_of actions))
                   hypothesis_data of
              Inl e \<Rightarrow> Inl e
            | Inr missing_actions \<Rightarrow>
                if list_ex (\<lambda>m. m \<noteq> {}) missing_actions then
                  Inl (ValueError (Report ''Missing actions:'' (file_report fnames missing_actions)))
                else Inr ())))))"

section \<open>The vocabulary of the validator's and the generator's properties\<close>

text \<open>
  Per file of the directory: whether it is missing, the required features its header
  lacks (compared in lower case), its \<open>actions\<close> column, and the actions of the vocabulary
  that column lacks. \<open>report_of\<close> lists, in the order of \<open>fnames\<close>, the files for which a
  set is not empty, each with its set.
\<close>

definition missing_files :: "directory \<Rightarrow> string list" where
  "missing_files d = filter (\<lambda>name. \<not> isfile d name) fnames"

definition lacking_features :: "directory \<Rightarrow> string list \<Rightarrow> string \<Rightarrow> string set" where
  "lacking_features d features name =
     (case csv_files d name of
        None \<Rightarrow> {}
      | Some df \<Rightarrow>
          set (map lower ([''actions'', ''baseline''] @ features)) - set (map lower (columns df)))"

definition actions_column :: "directory \<Rightarrow> string \<Rightarrow> cell list option" where
  "actions_column d name =
     (case csv_files d name of None \<Rightarrow> None | Some df \<Rightarrow> map_of (cols df) ''actions'')"

definition lacking_actions :: "directory \<Rightarrow> string \<Rightarrow> string set" where
  "lacking_actions d name =
     (case actions_column d name of
        None \<Rightarrow> {}
      | Some vs \<Rightarrow> set all_possible_actions - strings_of vs)"

definition covers_vocabulary :: "directory \<Rightarrow> string \<Rightarrow> bool" where
  "covers_vocabulary d name =
     (case actions_column d name of
        None \<Rightarrow> False
      | Some vs \<Rightarrow> set all_possible_actions \<subseteq> strings_of vs)"

definition report_of :: "(string \<Rightarrow> string set) \<Rightarrow> (string \<times> string set) list" where
  "report_of lacking = [(name, lacking name). name \<leftarrow> fnames, lacking name \<noteq> {}]"

definition frame_of :: "directory \<Rightarrow> string \<Rightarrow> dataframe" where
  "frame_of d name =
     (case csv_files d name of None \<Rightarrow> \<lparr>nrows = 0, cols = []\<rparr> | Some df \<Rightarrow> df)"

text \<open>
  The skeleton as the specification describes it: ten rows, one per action in the order of
  the vocabulary, the columns \<open>actions\<close>, \<open>baseline\<close> and the encoded features, and zero in
  every cell that is not under \<open>actions\<close>.
\<close>

definition empty_matrix :: "string list \<Rightarrow> dataframe" where
  "empty_matrix features =
     \<lparr>nrows = 10,
      cols = map (\<lambda>c. (c, if c = ''actions'' then map Str all_possible_actions
                         else replicate 10 (Number 0)))
               (''actions'' # ''baseline'' # features)\<rparr>"

definition action_fnames :: "string list" where
  "action_fnames =
     [''actions_effects_on_mh_'' @ policy @ ''.csv''. policy \<leftarrow> lockdown_policies]"

section \<open>Example inputs\<close>

definition example_spec :: json where
  "example_spec =
     JObj [(''age'', JList [JList [JNum 18, JNum 99]]),
           (''gender'', JList [JList [JStr ''f'', JStr ''m''], JList [JNum 1, JNum 2]])]"

definition matrix :: "string list \<Rightarrow> string list \<Rightarrow> dataframe" where
  "matrix labels actions =
     \<lparr>nrows = length actions,
      cols = (''actions'', map Str actions) #
             map (\<lambda>c. (c, replicate (length actions) (Number 0))) labels\<rparr>"

definition full_matrix :: dataframe where
  "full_matrix = matrix [''Baseline'', ''age'', ''gender_f'', ''gender_m''] all_possible_actions"


definition no_travel_matrix :: dataframe where
  "no_travel_matrix =
     matrix [''baseline'', ''age'', ''gender_f'', ''gender_m'']
       (filter (\<lambda>a. a \<noteq> ''travel'') all_possible_actions)"

definition extra_action_matrix :: dataframe where
  "extra_action_matrix =
     matrix [''baseline'', ''age'', ''gender_f'', ''gender_m'']
       (all_possible_actions @ [''sleep''])"

definition empty_directory :: directory where
  "empty_directory =
     \<lparr>dir_params = ''parameters'', params_individual = None, csv_files = (\<lambda>name. None)\<rparr>"

definition fresh_directory :: directory where
  "fresh_directory =
     \<lparr>dir_params = ''parameters'', params_individual = Some example_spec,
      csv_files = (\<lambda>name. None)\<rparr>"

definition complete_directory :: directory where
  "complete_directory =
     \<lparr>dir_params = ''parameters'', params_individual = Some example_spec,
      csv_files = (\<lambda>name. if name \<in> set fnames then Some full_matrix else None)\<rparr>"

definition unspecified_directory :: directory where
  "unspecified_directory = complete_directory\<lparr>params_individual := None\<rparr>"


definition no_travel_directory :: directory where
  "no_travel_directory =
     complete_directory\<lparr>csv_files :=
       (csv_files complete_directory)(''lockdown_hard.csv'' \<mapsto> no_travel_matrix)\<rparr>"

definition extra_action_directory :: directory where
  "extra_action_directory =
     complete_directory\<lparr>csv_files :=
       (csv_files complete_directory)(''lockdown_easy.csv'' \<mapsto> extra_action_matrix)\<rparr>"

definition prepared_directory :: directory where
  "prepared_directory =
     \<lparr>dir_params = ''parameters'', params_individual = Some example_spec,
      csv_files = (\<lambda>name. if name \<in> set action_fnames then Some full_matrix else None)\<rparr>"



section \<open>The cross-file consistency check (test_input_example_matrices)\<close>














section \<open>Properties of the date-range extractor\<close>

subsection \<open>The two loops\<close>








subsection \<open>What a failure of strptime looks like\<close>




subsection \<open>The body of filter_dates once the dates are collected\<close>



subsection \<open>Paths inside the window\<close>



subsection \<open>The two range errors\<close>



subsection \<open>A path without a date\<close>



section \<open>Properties of the feature encoder\<close>

lemma level_columns_strings:
  "string_levels vs = Some levels \<Longrightarrow>
   level_columns key vs = Inr (map (\<lambda>level. key @ ''_'' @ level) levels)"
  by (induction vs arbitrary: levels) (auto split: json.splits option.splits)

lemma encode_items_uniform:
  "\<forall>a\<in>set items. uniform_attribute a \<Longrightarrow>
   encode_items items features = Inr (features @ spec_encoding items)"
proof (induction items arbitrary: features)
  case Nil
  then show ?case by (simp add: spec_encoding_def)
next
  case (Cons a items)
  obtain key "value" where a: "a = (key, value)" by (cases a)
  from Cons.prems have u: "uniform_attribute (key, value)" by (simp add: a)
  then obtain v vs rest where v: "value = JList (JList (v # vs) # rest)"
    by (auto simp: uniform_attribute_def split: option.splits json.splits list.splits
        elim: first_entry.elims)
  have ih: "\<And>fs. encode_items items fs = Inr (fs @ spec_encoding items)"
    using Cons by simp
  show ?case
  proof (cases "is_str v")
    case True
    then obtain s where s: "v = JStr s" by (cases v) auto
    from u True obtain levels where l: "string_levels vs = Some levels"
      by (auto simp: uniform_attribute_def v)
    show ?thesis
      using l level_columns_strings [OF l, of key]
      by (simp add: a v s ih expand_levels_def spec_encoding_def spec_columns_def)
  next
    case False
    then have "string_levels (v # vs) = None" by (cases v) auto
    then show ?thesis
      using False by (simp add: a v ih spec_encoding_def spec_columns_def)
  qed
qed

text \<open>
  Claim C7, as stated, fails: the encoder looks at the first element of the first example
  entry only. For the attribute \<open>gender\<close> with first entry \<open>["f", 1]\<close>, which is not a list of
  strings, the specification's reading gives the single column \<open>gender\<close>, while the encoder
  starts to expand the levels and raises a \<open>TypeError\<close> at the second element.
\<close>

theorem encoder_mixed_entry_counterexample:
  "get_one_hot_encoded_features ''parameters/params_individual.json''
     (Some (JObj [(''gender'', JList [JList [JStr ''f'', JNum 1]])])) =
     Inl (TypeError (''can only concatenate str (not '' @ [CHR 0x22] @ ''int'' @ [CHR 0x22] @
                     '') to str'')) \<and>
   spec_encoding [(''gender'', JList [JList [JStr ''f'', JNum 1]])] = [''gender''] \<and>
   get_one_hot_encoded_features ''parameters/params_individual.json''
     (Some (JObj [(''gender'', JList [JList [JStr ''f'', JNum 1]])])) \<noteq>
   Inr (spec_encoding [(''gender'', JList [JList [JStr ''f'', JNum 1]])])"
  by (simp add: get_one_hot_encoded_features_def expand_levels_def spec_encoding_def
      spec_columns_def cannot_concatenate_def)

text \<open>
  Claim C7, amended. For every specification mapping in which the value of each attribute
  is a list whose first entry is a non-empty list that either starts with a non-string or
  holds strings only, the encoder returns the column list of the specification: an
  attribute whose first entry is a list of strings expands, in the order of the levels, to
  one column \<open>attribute_level\<close> per level, every other attribute is the single column named
  after it, and the columns follow the order of the attributes in the mapping.
\<close>

theorem encoder_uniform_specification:
  "\<forall>a\<in>set items. uniform_attribute a \<Longrightarrow>
   get_one_hot_encoded_features fpath (Some (JObj items)) = Inr (spec_encoding items)"
  by (simp add: get_one_hot_encoded_features_def encode_items_uniform)

theorem encoder_uniform_specification_witness:
  "get_one_hot_encoded_features ''parameters/params_individual.json''
     (Some (JObj [(''age'', JList [JList [JNum 18, JNum 99]]),
                  (''gender'', JList [JList [JStr ''f'', JStr ''m''], JList [JNum 1, JNum 2]])])) =
   Inr [''age'', ''gender_f'', ''gender_m'']"
  using encoder_uniform_specification
    [of "[(''age'', JList [JList [JNum 18, JNum 99]]),
          (''gender'', JList [JList [JStr ''f'', JStr ''m''], JList [JNum 1, JNum 2]])]"
        "''parameters/params_individual.json''"]
  by (simp add: uniform_attribute_def spec_encoding_def spec_columns_def)

section \<open>Properties of the validator and the generator\<close>

subsection \<open>Comprehensions over indices and over files\<close>

lemma indexed_comprehension:
  "concat (map (\<lambda>i. h (xs ! i)) [0..<length xs]) = concat (map h xs)"
proof -
  have "map (\<lambda>i. h (xs ! i)) [0..<length xs] = map h (map (\<lambda>i. xs ! i) [0..<length xs])"
    by simp
  then show ?thesis by (simp only: map_nth)
qed

lemma file_report_map:
  "file_report names (map g names) = [(n, g n). n \<leftarrow> names, g n \<noteq> {}]"
proof -
  have "file_report names (map g names) =
      concat (map (\<lambda>i. if g (names ! i) \<noteq> {} then [(names ! i, g (names ! i))] else [])
        [0..<length names])"
    unfolding file_report_def by (rule arg_cong [where f = concat], rule map_cong) auto
  then show ?thesis
    using indexed_comprehension [of "\<lambda>n. if g n \<noteq> {} then [(n, g n)] else []" names] by simp
qed

lemma missing_names_filter:
  "[names ! i. i \<leftarrow> [0..<length names], \<not> map P names ! i] = filter (\<lambda>n. \<not> P n) names"
proof -
  have "[names ! i. i \<leftarrow> [0..<length names], \<not> map P names ! i] =
      concat (map (\<lambda>i. if \<not> P (names ! i) then [names ! i] else []) [0..<length names])"
    by (rule arg_cong [where f = concat], rule map_cong) auto
  also have "\<dots> = concat (map (\<lambda>n. if \<not> P n then [n] else []) names)"
    by (rule indexed_comprehension)
  also have "\<dots> = filter (\<lambda>n. \<not> P n) names"
    by (induction names) auto
  finally show ?thesis .
qed

lemma traverse_total:
  "\<forall>x\<in>set xs. f x = Inr (g x) \<Longrightarrow> traverse f xs = Inr (map g xs)"
  by (induction xs) auto

lemma all_exist_iff: "list_all id (map (isfile d) fnames) \<longleftrightarrow> missing_files d = []"
  by (auto simp: missing_files_def list_all_iff filter_empty_conv)

lemma validate_files_missing:
  assumes "missing_files d \<noteq> []"
  shows "validate_param_file d =
    Inl (ValueError (Text (''Hypothesis file(s) not found: '' @ join '', '' (missing_files d) @ ''.'')))"
proof -
  have "\<not> list_all id (map (isfile d) fnames)"
    using assms by (simp only: all_exist_iff not_False_eq_True)
  then show ?thesis
    unfolding validate_param_file_def Let_def
    by (simp only: if_True missing_names_filter missing_files_def simp_thms)
qed

lemma read_all:
  assumes "missing_files d = []"
  shows "traverse (read_csv d) fnames = Inr (map (frame_of d) fnames)"
proof (rule traverse_total, rule ballI)
  fix n assume "n \<in> set fnames"
  then have "isfile d n" using assms by (auto simp: missing_files_def filter_empty_conv)
  then show "read_csv d n = Inr (frame_of d n)"
    by (auto simp: isfile_def read_csv_def frame_of_def)
qed

lemma features_of_frames:
  assumes "missing_files d = []"
  shows "map (\<lambda>hd. set (map lower ([''actions'', ''baseline''] @ features)) - set (map lower (columns hd)))
           (map (frame_of d) fnames) = map (lacking_features d features) fnames"
proof -
  have "set (map lower ([''actions'', ''baseline''] @ features)) -
          set (map lower (columns (frame_of d n))) = lacking_features d features n"
    if "n \<in> set fnames" for n
  proof -
    from that assms obtain df where "csv_files d n = Some df"
      by (auto simp: missing_files_def filter_empty_conv isfile_def)
    then show ?thesis
      by (simp only: lacking_features_def frame_of_def option.case)
  qed
  then show ?thesis
    unfolding map_map comp_def by (intro map_cong refl)
qed


lemma traverse_map: "traverse f (map g xs) = traverse (\<lambda>x. f (g x)) xs"
  by (induction xs) (auto split: sum.splits)

lemma actions_of_frames:
  assumes "missing_files d = []" and "\<forall>n\<in>set fnames. actions_column d n \<noteq> None"
  shows "traverse (\<lambda>hd. case get_column hd ''actions'' of Inl e \<Rightarrow> Inl e
                        | Inr actions \<Rightarrow> Inr (set all_possible_actions - strings_of actions))
           (map (frame_of d) fnames) = Inr (map (lacking_actions d) fnames)"
  unfolding traverse_map
proof (rule traverse_total, rule ballI)
  fix n assume n: "n \<in> set fnames"
  then obtain vs where "actions_column d n = Some vs" using assms(2) by auto
  then show "(case get_column (frame_of d n) ''actions'' of Inl e \<Rightarrow> Inl e
              | Inr actions \<Rightarrow> Inr (set all_possible_actions - strings_of actions))
      = Inr (lacking_actions d n)"
    by (auto simp: actions_column_def lacking_actions_def frame_of_def get_column_def
        split: option.splits)
qed

lemma validate_actions:
  assumes "missing_files d = []"
    and "get_one_hot_encoded_features (path_individual d) (params_individual d) = Inr features"
    and "\<forall>n\<in>set fnames. lacking_features d features n = {}"
    and "\<forall>n\<in>set fnames. actions_column d n \<noteq> None"
  shows "validate_param_file d =
    (if \<exists>n\<in>set fnames. lacking_actions d n \<noteq> {}
     then Inl (ValueError (Report ''Missing actions:'' (report_of (lacking_actions d))))
     else Inr ())"
proof -
  have e: "list_all id (map (isfile d) fnames)"
    using assms(1) by (simp only: all_exist_iff)
  have x: "\<not> list_ex (\<lambda>m. m \<noteq> {}) (map (lacking_features d features) fnames)"
    using assms(3) by (simp add: list_ex_iff)
  have y: "list_ex (\<lambda>m. m \<noteq> {}) (map (lacking_actions d) fnames) \<longleftrightarrow>
      (\<exists>n\<in>set fnames. lacking_actions d n \<noteq> {})"
    by (simp add: list_ex_iff)
  show ?thesis
    unfolding validate_param_file_def Let_def
    using e x
    by (simp only: assms(2) read_all [OF assms(1)] features_of_frames [OF assms(1)]
        actions_of_frames [OF assms(1,4)] y
        sum.case if_True if_False simp_thms file_report_map report_of_def)
qed

subsection \<open>What the generator writes\<close>

lemma length_all_possible_actions: "length all_possible_actions = 10"
  by (simp add: all_possible_actions_def)

lemma skeleton_empty_matrix: "skeleton features = Inr (empty_matrix features)"
  by (simp add: skeleton_def DataFrame_def set_column_def columns_def empty_matrix_def
      length_all_possible_actions)

lemma fold_to_csv:
  "fold (to_csv df) names d =
     d\<lparr>csv_files := \<lambda>name. if name \<in> set names then Some df else csv_files d name\<rparr>"
proof (induction names arbitrary: d)
  case Nil
  then show ?case by simp
next
  case (Cons n names)
  have "fold (to_csv df) (n # names) d = fold (to_csv df) names (to_csv df n d)"
    by simp
  also have "\<dots> = (to_csv df n d)\<lparr>csv_files :=
      \<lambda>name. if name \<in> set names then Some df else csv_files (to_csv df n d) name\<rparr>"
    by (rule Cons.IH)
  also have "\<dots> = d\<lparr>csv_files :=
      \<lambda>name. if name \<in> set (n # names) then Some df else csv_files d name\<rparr>"
  proof -
    have "(\<lambda>name. if name \<in> set names then Some df else csv_files (to_csv df n d) name) =
        (\<lambda>name. if name \<in> set (n # names) then Some df else csv_files d name)"
      by (rule ext) (simp add: to_csv_def)
    then show ?thesis by (simp add: to_csv_def)
  qed
  finally show ?case .
qed


lemma create_written:
  assumes "params_individual d \<noteq> None"
    and "get_one_hot_encoded_features (path_individual d) (params_individual d) = Inr features"
  shows "create_empty_hypotheses d =
     (Inr (), d\<lparr>csv_files := \<lambda>name. if name \<in> set output_fpaths
                                then Some (empty_matrix features) else csv_files d name\<rparr>)"
  using assms by (simp add: create_empty_hypotheses_def skeleton_empty_matrix fold_to_csv)



subsection \<open>One check at a time\<close>




subsection \<open>The specification file is not looked for\<close>

text \<open>
  Claim C3. The claim is what the validator announces and the generator does: a missing
  specification file is a failure of its own, reported first. The code of
  \<open>validate_param_file\<close> falls short of it: under the comment \<open>check if parameter files exist\<close>
  it only builds the path of the specification file and never tests it. In a directory without
  the specification file and without hypothesis files the error raised is the one for the
  missing hypothesis files; with all hypothesis files present the missing specification
  file surfaces only afterwards, as the \<open>FileNotFoundError\<close> of \<open>open\<close> inside the encoder.
\<close>

theorem validate_without_specification:
  "validate_param_file empty_directory =
     Inl (ValueError (Text
       ''Hypothesis file(s) not found: actions_effects_on_mh_absent.csv, actions_effects_on_mh_easy.csv, actions_effects_on_mh_medium.csv, actions_effects_on_mh_hard.csv, lockdown_absent.csv, lockdown_easy.csv, lockdown_medium.csv, lockdown_hard.csv.'')) \<and>
   validate_param_file unspecified_directory =
     Inl (FileNotFoundError (''[Errno 2] No such file or directory: '' @
            [CHR 0x27] @ ''parameters/params_individual.json'' @ [CHR 0x27]))"
  by code_simp

subsection \<open>Coverage of the action vocabulary\<close>

text \<open>
  Claim C4, as stated, fails: the validator subtracts the column from the vocabulary, so it
  objects to a column that lacks an action and not to one that has more. In
  \<open>extra_action_directory\<close> the column of \<open>lockdown_easy.csv\<close> holds the ten actions and
  \<open>sleep\<close>; it is not the vocabulary, and the validator returns without an error.
\<close>

theorem validate_superset_counterexample:
  "actions_column extra_action_directory ''lockdown_easy.csv'' =
     Some (map Str (all_possible_actions @ [''sleep''])) \<and>
   set all_possible_actions \<subseteq> strings_of (map Str (all_possible_actions @ [''sleep''])) \<and>
   ''sleep'' \<in> strings_of (map Str (all_possible_actions @ [''sleep''])) \<and>
   ''sleep'' \<notin> set all_possible_actions \<and>
   validate_param_file extra_action_directory = Inr ()"
  by code_simp

text \<open>
  Claim C4, amended. Once every hypothesis file exists, the encoder accepts the
  specification, no header lacks a required feature and every file has an \<open>actions\<close>
  column, \<open>validate_param_file\<close> raises the missing-actions error if and only if the
  \<open>actions\<close> column of some file, read as a set, does not contain the full 10-element
  vocabulary; the error lists exactly those files, each with the actions it lacks. A file
  whose column is a superset of the vocabulary is accepted.
\<close>

theorem validate_actions_coverage:
  assumes "missing_files d = []"
    and "get_one_hot_encoded_features (path_individual d) (params_individual d) = Inr features"
    and "\<forall>n\<in>set fnames. lacking_features d features n = {}"
    and "\<forall>n\<in>set fnames. actions_column d n \<noteq> None"
  shows "validate_param_file d =
    (if list_all (covers_vocabulary d) fnames then Inr ()
     else Inl (ValueError (Report ''Missing actions:''
            [(n, lacking_actions d n). n \<leftarrow> fnames, \<not> covers_vocabulary d n])))"
proof -
  have c: "covers_vocabulary d n \<longleftrightarrow> lacking_actions d n = {}" if "n \<in> set fnames" for n
  proof -
    from that assms(4) obtain vs where "actions_column d n = Some vs" by auto
    then show ?thesis by (simp add: covers_vocabulary_def lacking_actions_def)
  qed
  then have "list_all (covers_vocabulary d) fnames \<longleftrightarrow> \<not> (\<exists>n\<in>set fnames. lacking_actions d n \<noteq> {})"
    by (simp add: list_all_iff)
  moreover have "[(n, lacking_actions d n). n \<leftarrow> fnames, \<not> covers_vocabulary d n] =
      report_of (lacking_actions d)"
    unfolding report_of_def
    by (rule arg_cong [where f = concat], rule map_cong) (simp_all add: c)
  ultimately show ?thesis
    using validate_actions [OF assms] by simp
qed

theorem validate_actions_coverage_witness:
  "validate_param_file extra_action_directory = Inr () \<and>
   validate_param_file no_travel_directory =
     Inl (ValueError (Report ''Missing actions:'' [(''lockdown_hard.csv'', {''travel''})]))"
proof -
  let ?features = "[''age'', ''gender_f'', ''gender_m'']"
  have a1: "missing_files extra_action_directory = []"
    and a2: "get_one_hot_encoded_features (path_individual extra_action_directory) (params_individual extra_action_directory) = Inr ?features"
    and a3: "\<forall>n\<in>set fnames. lacking_features extra_action_directory ?features n = {}"
    and a4: "\<forall>n\<in>set fnames. actions_column extra_action_directory n \<noteq> None"
    and a5: "list_all (covers_vocabulary extra_action_directory) fnames"
    by code_simp+
  have a: "validate_param_file extra_action_directory = Inr ()"
    using validate_actions_coverage [OF a1 a2 a3 a4] a5 by (simp only: if_True)
  have b1: "missing_files no_travel_directory = []"
    and b2: "get_one_hot_encoded_features (path_individual no_travel_directory) (params_individual no_travel_directory) = Inr ?features"
    and b3: "\<forall>n\<in>set fnames. lacking_features no_travel_directory ?features n = {}"
    and b4: "\<forall>n\<in>set fnames. actions_column no_travel_directory n \<noteq> None"
    and b5: "\<not> list_all (covers_vocabulary no_travel_directory) fnames"
    and b6: "[(n, lacking_actions no_travel_directory n). n \<leftarrow> fnames,
               \<not> covers_vocabulary no_travel_directory n] = [(''lockdown_hard.csv'', {''travel''})]"
    by code_simp+
  have b: "validate_param_file no_travel_directory =
     Inl (ValueError (Report ''Missing actions:'' [(''lockdown_hard.csv'', {''travel''})]))"
    using validate_actions_coverage [OF b1 b2 b3 b4] b5 unfolding b6 by (simp only: if_False)
  show ?thesis using a b by (intro conjI)
qed

subsection \<open>Generating and then validating\<close>

lemma isfile_after_create:
  assumes "fst (create_empty_hypotheses d) = Inr ()"
  shows "isfile (snd (create_empty_hypotheses d)) name \<longleftrightarrow>
    name \<in> set output_fpaths \<or> isfile d name"
proof -
  from assms obtain features where
    "params_individual d \<noteq> None"
    "get_one_hot_encoded_features (path_individual d) (params_individual d) = Inr features"
    by (auto simp: create_empty_hypotheses_def skeleton_empty_matrix
        split: if_splits sum.splits)
  then show ?thesis
    by (simp add: create_written isfile_def)
qed

text \<open>
  Claim C10, as stated, fails: the generator writes \<open>actions_effects_on_mh.csv\<close> and never
  the four files \<open>actions_effects_on_mh_<policy>.csv\<close> the validator asks for, but a
  directory may hold those four already. In \<open>prepared_directory\<close> it does (with complete
  matrices), and generating and then validating succeeds.
\<close>

theorem create_then_validate_counterexample:
  "fst (create_empty_hypotheses prepared_directory) = Inr () \<and>
   validate_param_file (snd (create_empty_hypotheses prepared_directory)) = Inr ()"
  by code_simp

text \<open>
  Claim C10, amended. For every directory with a specification file the generator accepts
  in which at least one of the four files \<open>actions_effects_on_mh_<policy>.csv\<close> is absent,
  running \<open>create_empty_hypotheses\<close> and then \<open>validate_param_file\<close> raises the
  hypothesis-file-not-found error, and the files it lists are exactly those of the four
  that were absent: the generator writes the four lockdown files and
  \<open>actions_effects_on_mh.csv\<close>, none of which is one of the four.
\<close>

theorem create_then_validate:
  assumes "fst (create_empty_hypotheses d) = Inr ()"
    and "\<exists>name\<in>set action_fnames. \<not> isfile d name"
  shows "validate_param_file (snd (create_empty_hypotheses d)) =
    Inl (ValueError (Text (''Hypothesis file(s) not found: '' @
      join '', '' (filter (\<lambda>name. \<not> isfile d name) action_fnames) @ ''.'')))"
proof -
  have "missing_files (snd (create_empty_hypotheses d)) =
      filter (\<lambda>name. \<not> isfile d name) action_fnames"
    by (simp add: missing_files_def isfile_after_create [OF assms(1)] fnames_def
        action_fnames_def output_fpaths_def lockdown_policies_def individual_status_def)
  moreover from assms(2) have "filter (\<lambda>name. \<not> isfile d name) action_fnames \<noteq> []"
    by (simp add: filter_empty_conv)
  ultimately show ?thesis
    using validate_files_missing [of "snd (create_empty_hypotheses d)"] by simp
qed

theorem create_then_validate_witness:
  "validate_param_file (snd (create_empty_hypotheses fresh_directory)) =
     Inl (ValueError (Text
       ''Hypothesis file(s) not found: actions_effects_on_mh_absent.csv, actions_effects_on_mh_easy.csv, actions_effects_on_mh_medium.csv, actions_effects_on_mh_hard.csv.''))"
proof -
  have a: "fst (create_empty_hypotheses fresh_directory) = Inr ()"
    and b: "\<exists>name\<in>set action_fnames. \<not> isfile fresh_directory name"
    and c: "''Hypothesis file(s) not found: '' @
        join '', '' (filter (\<lambda>name. \<not> isfile fresh_directory name) action_fnames) @ ''.'' =
      ''Hypothesis file(s) not found: actions_effects_on_mh_absent.csv, actions_effects_on_mh_easy.csv, actions_effects_on_mh_medium.csv, actions_effects_on_mh_hard.csv.''"
    by code_simp+
  show ?thesis
    using create_then_validate [OF a b] unfolding c .
qed

section \<open>Properties of the cross-file consistency check\<close>

subsection \<open>The indices of the order message\<close>









subsection \<open>Column order drift\<close>




end
